theory Spec2Isabelle
  imports Main "HOL-Library.AList" "HOL-Library.Sublist"
begin

text \<open>
  The credential coordinator of the chat front end: the hook \<^verbatim>\<open>useCredentials\<close> with
  its module-level cache and single promise slot, the session identifier of ChatContext,
  and the recovery probe of sessionRecovery.js. Synchronous code is a function on an
  explicit state; an async closure is split at its first \<^verbatim>\<open>await\<close> into a start
  and a continuation that takes the awaited response; the remote service, the clock and
  the JSON built-ins are parameters.
\<close>

section \<open>JavaScript values\<close>

text \<open>
  The values that travel through the credential code: the body of an HTTP response, the
  object read back from \<^verbatim>\<open>JSON.parse\<close>, the credentials object a form hands to
  \<^verbatim>\<open>saveCredentials\<close>. An object is its list of own properties.
\<close>

type_synonym sid = string

datatype jsval =
    JUndefined
  | JNull
  | JBool bool
  | JNum int
  | JStr string
  | JArr "jsval list"
  | JObj "(string \<times> jsval) list"

datatype exn = TypeError | SyntaxError | NetworkError

text \<open>Truthiness, as \<^verbatim>\<open>if (v)\<close> and \<^verbatim>\<open>a && b\<close> test it.\<close>

fun truthy :: "jsval \<Rightarrow> bool" where
  "truthy JUndefined = False"
| "truthy JNull = False"
| "truthy (JBool b) = b"
| "truthy (JNum n) = (n \<noteq> 0)"
| "truthy (JStr s) = (s \<noteq> [])"
| "truthy (JArr vs) = True"
| "truthy (JObj kvs) = True"

text \<open>
  Property read \<^verbatim>\<open>v[k]\<close> for the keys this code reads (\<^verbatim>\<open>success\<close>,
  \<^verbatim>\<open>credentials\<close>, \<^verbatim>\<open>url\<close>, \<^verbatim>\<open>database\<close>, \<^verbatim>\<open>username\<close>): a TypeError on
  \<^verbatim>\<open>null\<close> and \<^verbatim>\<open>undefined\<close>, the own property of an object, \<^verbatim>\<open>undefined\<close>
  on everything else.
\<close>

fun js_get :: "jsval \<Rightarrow> string \<Rightarrow> exn + jsval" where
  "js_get JUndefined k = Inl TypeError"
| "js_get JNull k = Inl TypeError"
| "js_get (JObj kvs) k = Inr (case map_of kvs k of None \<Rightarrow> JUndefined | Some v \<Rightarrow> v)"
| "js_get v k = Inr JUndefined"

text \<open>
  \<^verbatim>\<open>requiredFields.every(field => parsedCredentials[field])\<close>: stops at the first
  falsy field, throws where the read throws.
\<close>

fun every_field :: "jsval \<Rightarrow> string list \<Rightarrow> exn + bool" where
  "every_field p [] = Inr True"
| "every_field p (f # fs) =
     (case js_get p f of
        Inl e \<Rightarrow> Inl e
      | Inr v \<Rightarrow> if truthy v then every_field p fs else Inr False)"

definition requiredFields :: "string list" where
  "requiredFields = [''url'', ''database'', ''username'']"


section \<open>The environment\<close>

text \<open>
  What the code calls and does not own: the JSON built-ins, the remote credential
  service behind \<^verbatim>\<open>agentAPI\<close>, and the clock. \<open>remote k s\<close> is the outcome of
  the \<open>k\<close>-th credential check of the execution (counted from 0) when it asks for
  session \<open>s\<close>, so the service may answer differently at different times.
  \<open>Date_now k\<close> is the clock reading of a retry started when \<open>k\<close> checks have
  been issued.
\<close>

datatype api_result = Throws | Returns jsval

record env =
  JSON_parse :: "string \<Rightarrow> jsval option"
  JSON_stringify :: "jsval \<Rightarrow> string"
  remote :: "nat \<Rightarrow> sid \<Rightarrow> api_result"
  Date_now :: "nat \<Rightarrow> int"

section \<open>State\<close>

record status =
  isConfigured :: bool
  error :: "string option"

record hook_status = status +
  isLoading :: bool
  isChecking :: bool
  lastChecked :: "int option"

datatype event = CredentialsUpdated | SessionIdChanged sid sid

datatype phase = AwaitLocalCheck | AwaitBackendCheck

text \<open>
  One run of the async closure of \<^verbatim>\<open>checkCredentials\<close>: the session and the clock
  reading it captured, the await it is suspended at, the number of the request it waits
  for, and whether it has finished.
\<close>

record task =
  t_sessionId :: sid
  t_now :: int
  t_phase :: phase
  t_req :: nat
  t_settled :: bool

text \<open>
  The module-level variables of useCredentials.js, the browser's \<^verbatim>\<open>localStorage\<close>,
  the session of ChatContext, one hook instance's React state, the events dispatched on
  \<^verbatim>\<open>window\<close>, the dispatches scheduled with \<^verbatim>\<open>setTimeout\<close> (delay in ms), the
  credential checks sent to the service, and the closures started so far (a promise is
  the index of its closure).
\<close>

record world =
  globalCredentialCheck :: "nat option"
  globalCredentialStatus :: "status option"
  globalLastCheck :: int
  globalSessionId :: "sid option"
  localStorage :: "(string \<times> string) list"
  sessionId :: sid
  credentialsStatus :: hook_status
  isMounted :: bool
  events :: "event list"
  timers :: "(nat \<times> event) list"
  requests :: "sid list"
  tasks :: "task list"

definition getItem :: "string \<Rightarrow> world \<Rightarrow> string option" where
  "getItem k w = map_of (localStorage w) k"


definition removeItem :: "string \<Rightarrow> world \<Rightarrow> world" where
  "removeItem k w = w\<lparr>localStorage := AList.delete k (localStorage w)\<rparr>"


section \<open>ChatContext: the session identifier\<close>


section \<open>agentAPI\<close>

text \<open>
  \<^verbatim>\<open>agentAPI.getOdooCredentials(sessionId)\<close>: one GET; the response body, or a
  thrown Error when the transport fails.
\<close>

definition send_check :: "sid \<Rightarrow> world \<Rightarrow> world" where
  "send_check s w = w\<lparr>requests := requests w @ [s]\<rparr>"

definition getOdooCredentials :: "env \<Rightarrow> sid \<Rightarrow> world \<Rightarrow> api_result \<times> world" where
  "getOdooCredentials E s w = (remote E (length (requests w)) s, send_check s w)"

text \<open>\<^verbatim>\<open>check.success && check.credentials\<close>, as a condition.\<close>

definition check_ok :: "jsval \<Rightarrow> exn + bool" where
  "check_ok d =
     (case js_get d ''success'' of
        Inl e \<Rightarrow> Inl e
      | Inr s \<Rightarrow>
          if truthy s
          then (case js_get d ''credentials'' of Inl e \<Rightarrow> Inl e | Inr c \<Rightarrow> Inr (truthy c))
          else Inr False)"

section \<open>sessionRecovery.js\<close>

datatype find_result = NotFound | Found sid jsval

definition commonSessions :: "sid list" where
  "commonSessions =
     [''8428094f-8aeb-4bad-aa6d-6a838a3c9192'', ''fc208a99-36eb-4b0f-9e9a-b49cd882b943'']"

text \<open>
  The storage keys containing \<^verbatim>\<open>session\<close> or \<^verbatim>\<open>odoo\<close>. The source computes and
  logs them; nothing else reads them.
\<close>

definition sessionHints :: "world \<Rightarrow> string list" where
  "sessionHints w =
     filter (\<lambda>key. sublist ''session'' key \<or> sublist ''odoo'' key) (map fst (localStorage w))"

text \<open>
  The \<^verbatim>\<open>for\<close> loop over the candidates: the current identifier is skipped, a check
  that throws is caught inside the loop and the loop goes on, the first confirmed
  candidate is returned.
\<close>

fun try_sessions :: "env \<Rightarrow> sid \<Rightarrow> sid list \<Rightarrow> world \<Rightarrow> find_result \<times> world" where
  "try_sessions E cur [] w = (NotFound, w)"
| "try_sessions E cur (testSession # rest) w =
     (if testSession \<noteq> cur
      then (case getOdooCredentials E testSession w of
              (Throws, w1) \<Rightarrow> try_sessions E cur rest w1
            | (Returns d, w1) \<Rightarrow>
                (case check_ok d of
                   Inl e \<Rightarrow> try_sessions E cur rest w1
                 | Inr True \<Rightarrow>
                     (case js_get d ''credentials'' of
                        Inl e \<Rightarrow> try_sessions E cur rest w1
                      | Inr c \<Rightarrow> (Found testSession c, w1))
                 | Inr False \<Rightarrow> try_sessions E cur rest w1))
      else try_sessions E cur rest w)"

definition findAvailableSession :: "env \<Rightarrow> sid \<Rightarrow> world \<Rightarrow> find_result \<times> world" where
  "findAvailableSession E currentSessionId w =
     (case getOdooCredentials E currentSessionId w of
        (Throws, w1) \<Rightarrow> (NotFound, w1)
      | (Returns d, w1) \<Rightarrow>
          (case check_ok d of
             Inl e \<Rightarrow> (NotFound, w1)
           | Inr True \<Rightarrow>
               (case js_get d ''credentials'' of
                  Inl e \<Rightarrow> (NotFound, w1)
                | Inr c \<Rightarrow> (Found currentSessionId c, w1))
           | Inr False \<Rightarrow> try_sessions E currentSessionId commonSessions w1))"


section \<open>useCredentials.js\<close>

datatype 'a promise = Resolved 'a | Rejected exn | Follows nat

datatype start_result = Immediate bool | Attached nat | Started nat


definition cacheExpiry :: int where
  "cacheExpiry = 5 * 60 * 1000"

text \<open>
  The head of \<^verbatim>\<open>checkCredentials\<close>: a call made under another identifier than the
  one the module tracks drops the promise and the cache.
\<close>

definition session_guard :: "sid \<Rightarrow> world \<Rightarrow> world" where
  "session_guard s w =
     (let w1 =
        (case globalSessionId w of
           None \<Rightarrow> w
         | Some g \<Rightarrow>
             if g \<noteq> [] \<and> g \<noteq> s
             then w\<lparr>globalCredentialCheck := None, globalCredentialStatus := None,
                    globalLastCheck := 0\<rparr>
             else w)
      in w1\<lparr>globalSessionId := Some s\<rparr>)"

text \<open>
  The start of the async closure, up to its first \<^verbatim>\<open>await\<close>: the stored summary is
  read and validated (an unparsable or incomplete one is removed), and the phase says
  which of the two checks of the backend the closure now waits for.
\<close>

definition fetch_begin :: "env \<Rightarrow> world \<Rightarrow> phase \<times> world" where
  "fetch_begin E w =
     (case getItem ''odoo_credentials'' w of
        None \<Rightarrow> (AwaitBackendCheck, w)
      | Some localCredentials \<Rightarrow>
          if localCredentials = [] then (AwaitBackendCheck, w)
          else (case JSON_parse E localCredentials of
                  None \<Rightarrow> (AwaitBackendCheck, removeItem ''odoo_credentials'' w)
                | Some parsedCredentials \<Rightarrow>
                    (case every_field parsedCredentials requiredFields of
                       Inl e \<Rightarrow> (AwaitBackendCheck, removeItem ''odoo_credentials'' w)
                     | Inr True \<Rightarrow> (AwaitLocalCheck, w)
                     | Inr False \<Rightarrow> (AwaitBackendCheck, removeItem ''odoo_credentials'' w))))"

definition start_fetch :: "env \<Rightarrow> sid \<Rightarrow> int \<Rightarrow> world \<Rightarrow> start_result \<times> world" where
  "start_fetch E s now w =
     (let w1 = (if isMounted w
                then w\<lparr>credentialsStatus :=
                        (credentialsStatus w)\<lparr>isChecking := True, isLoading := False,
                                              error := None\<rparr>\<rparr>
                else w);
          (ph, w2) = fetch_begin E w1;
          t = length (tasks w2);
          w3 = send_check s w2
      in (Started t,
          w3\<lparr>tasks := tasks w3 @
                 [\<lparr>t_sessionId = s, t_now = now, t_phase = ph,
                   t_req = length (requests w2), t_settled = False\<rparr>],
              globalCredentialCheck := Some t\<rparr>))"

text \<open>
  \<^verbatim>\<open>checkCredentials(skipCache)\<close> of a hook rendered with session \<open>s\<close>, run to the
  point where it returns a promise or a cached value. \<open>now\<close> is its
  \<^verbatim>\<open>Date.now()\<close>.
\<close>

definition checkCredentials_start ::
    "env \<Rightarrow> sid \<Rightarrow> bool \<Rightarrow> int \<Rightarrow> world \<Rightarrow> start_result \<times> world" where
  "checkCredentials_start E s skipCache now w0 =
     (let w = session_guard s w0
      in case globalCredentialCheck w of
           Some p \<Rightarrow> (Attached p, w)
         | None \<Rightarrow>
             (case globalCredentialStatus w of
                None \<Rightarrow> start_fetch E s now w
              | Some st \<Rightarrow>
                  if \<not> skipCache \<and> globalLastCheck w \<noteq> 0
                     \<and> now - globalLastCheck w < cacheExpiry
                  then (Immediate (isConfigured st),
                        if isMounted w
                        then w\<lparr>credentialsStatus :=
                                (credentialsStatus w)\<lparr>isConfigured := isConfigured st,
                                   isLoading := False, isChecking := False,
                                   lastChecked := Some (globalLastCheck w),
                                   error := error st\<rparr>\<rparr>
                        else w)
                  else start_fetch E s now w))"

text \<open>
  \<^verbatim>\<open>refreshCredentials\<close>: clears the promise and the cache, then calls
  \<^verbatim>\<open>checkCredentials(true)\<close>.
\<close>

definition refreshCredentials_start ::
    "env \<Rightarrow> sid \<Rightarrow> int \<Rightarrow> world \<Rightarrow> start_result \<times> world" where
  "refreshCredentials_start E s now w =
     (if isMounted w
      then checkCredentials_start E s True now
             (w\<lparr>globalCredentialCheck := None, globalCredentialStatus := None,
                globalLastCheck := 0, globalSessionId := Some s\<rparr>)
      else (Immediate False, w))"

text \<open>
  The write every branch of the closure ends with:
  \<^verbatim>\<open>globalCredentialStatus = newStatus; globalLastCheck = now;\<close> and the hook's own
  state when it is still mounted. \<open>now\<close> is the clock reading the closure captured
  when it started.
\<close>

definition store_status :: "bool \<Rightarrow> string option \<Rightarrow> int \<Rightarrow> world \<Rightarrow> world" where
  "store_status c e now w =
     (let w1 = w\<lparr>globalCredentialStatus := Some \<lparr>isConfigured = c, error = e\<rparr>,
                 globalLastCheck := now\<rparr>
      in if isMounted w1
         then w1\<lparr>credentialsStatus :=
                  \<lparr>isConfigured = c, error = e, isLoading = False, isChecking = False,
                   lastChecked = Some now\<rparr>\<rparr>
         else w1)"

text \<open>
  \<^verbatim>\<open>await agentAPI.getOdooCredentials(sessionId)\<close> followed by the test
  \<^verbatim>\<open>credentialCheck.success && credentialCheck.credentials\<close>: \<open>Inl\<close> when the
  call or the test throws.
\<close>

definition read_check :: "api_result \<Rightarrow> exn + bool" where
  "read_check resp = (case resp of Throws \<Rightarrow> Inl NetworkError | Returns d \<Rightarrow> check_ok d)"



definition task_catch :: "task \<Rightarrow> world \<Rightarrow> world" where
  "task_catch T w = store_status False (Some ''Failed to check credentials'') (t_now T) w"

definition task_finally :: "nat \<Rightarrow> world \<Rightarrow> world" where
  "task_finally t w =
     w\<lparr>globalCredentialCheck := None,
       tasks := (tasks w)[t := (tasks w ! t)\<lparr>t_settled := True\<rparr>]\<rparr>"




text \<open>
  \<^verbatim>\<open>clearCredentials()\<close>: \<open>clearResult\<close> is the outcome of
  \<^verbatim>\<open>agentAPI.clearOdooCredentials\<close>; a throw is caught and logged, a response is
  not looked at.
\<close>

definition clearCredentials ::
    "api_result \<Rightarrow> int \<Rightarrow> int \<Rightarrow> world \<Rightarrow> unit promise \<times> world" where
  "clearCredentials clearResult now now' w =
     (let w0 = (case clearResult of Throws \<Rightarrow> w | Returns r \<Rightarrow> w);
          w1 = removeItem ''odoo_credentials'' w0;
          w2 = w1\<lparr>globalCredentialCheck := None,
                  globalCredentialStatus := Some \<lparr>isConfigured = False, error = None\<rparr>,
                  globalLastCheck := now\<rparr>
      in (Resolved (),
          if isMounted w2
          then w2\<lparr>credentialsStatus :=
                   \<lparr>isConfigured = False, error = None, isLoading = False,
                    isChecking = False, lastChecked = Some now'\<rparr>\<rparr>
          else w2))"

section \<open>Readings of an execution, and example inputs\<close>

text \<open>
  \<open>confirmed E k s\<close>: the \<open>k\<close>-th check, made for \<open>s\<close>, answers with
  \<^verbatim>\<open>success\<close> and \<^verbatim>\<open>credentials\<close> both truthy. \<open>check_threw E k s\<close>: that
  check throws, or its response cannot be read.
\<close>

definition confirmed :: "env \<Rightarrow> nat \<Rightarrow> sid \<Rightarrow> bool" where
  "confirmed E k s =
     (case remote E k s of
        Throws \<Rightarrow> False
      | Returns d \<Rightarrow> (case check_ok d of Inl e \<Rightarrow> False | Inr ok \<Rightarrow> ok))"

definition check_threw :: "env \<Rightarrow> nat \<Rightarrow> sid \<Rightarrow> bool" where
  "check_threw E k s =
     (case remote E k s of
        Throws \<Rightarrow> True
      | Returns d \<Rightarrow> (case check_ok d of Inl e \<Rightarrow> True | Inr ok \<Rightarrow> False))"

text \<open>The closures that have started and not finished.\<close>

definition in_flight :: "world \<Rightarrow> nat list" where
  "in_flight w = filter (\<lambda>t. \<not> t_settled (tasks w ! t)) [0..<length (tasks w)]"

text \<open>
  Several calls of \<^verbatim>\<open>checkCredentials\<close> under one session, each with its own
  \<^verbatim>\<open>skipCache\<close> and clock reading, made one after the other before any response
  arrives.
\<close>

fun issue_checks ::
    "env \<Rightarrow> sid \<Rightarrow> (bool \<times> int) list \<Rightarrow> world \<Rightarrow> start_result list \<times> world" where
  "issue_checks E s [] w = ([], w)"
| "issue_checks E s ((skipCache, now) # cs) w =
     (case checkCredentials_start E s skipCache now w of
        (r, w1) \<Rightarrow> (case issue_checks E s cs w1 of (rs, w2) \<Rightarrow> (r # rs, w2)))"

text \<open>
  The state of a freshly loaded page whose session identifier is \<open>s\<close>: the module
  variables at their initial values, the identifier persisted by
  \<^verbatim>\<open>getOrCreateSessionId\<close>, the hook's initial React state.
\<close>

definition initial_world :: "sid \<Rightarrow> world" where
  "initial_world s =
     \<lparr>globalCredentialCheck = None, globalCredentialStatus = None, globalLastCheck = 0,
      globalSessionId = None, localStorage = [(''odoo_session_id'', s)], sessionId = s,
      credentialsStatus =
        \<lparr>isConfigured = False, error = None, isLoading = True, isChecking = False,
         lastChecked = None\<rparr>,
      isMounted = True, events = [], timers = [], requests = [], tasks = []\<rparr>"

text \<open>
  Response bodies: \<^verbatim>\<open>{success: false}\<close> and \<^verbatim>\<open>{success: true, credentials: c}\<close>.
\<close>

definition no_credentials :: jsval where
  "no_credentials = JObj [(''success'', JBool False)]"

definition with_credentials :: "jsval \<Rightarrow> jsval" where
  "with_credentials c = JObj [(''success'', JBool True), (''credentials'', c)]"

text \<open>
  An environment for the examples, with the remote service \<open>r\<close>. Its JSON functions
  are the built-ins cut down to what the examples store: \<open>example_stringify\<close> writes
  an object whose properties are undefined (left out) or strings with no character to
  escape, and the parser reads \<^verbatim>\<open>{}\<close> as the empty object; the examples parse no
  other text.
\<close>

fun json_members :: "(string \<times> jsval) list \<Rightarrow> string list" where
  "json_members [] = []"
| "json_members ((k, JStr v) # kvs) =
     (CHR 0x22 # k @ CHR 0x22 # CHR '':'' # CHR 0x22 # v @ [CHR 0x22]) # json_members kvs"
| "json_members ((k, v) # kvs) = json_members kvs"

fun commas :: "string list \<Rightarrow> string" where
  "commas [] = []"
| "commas [x] = x"
| "commas (x # y # ys) = x @ '','' @ commas (y # ys)"

definition example_stringify :: "jsval \<Rightarrow> string" where
  "example_stringify v =
     (case v of JObj kvs \<Rightarrow> ''{'' @ commas (json_members kvs) @ ''}'' | _ \<Rightarrow> ''null'')"

definition example_env :: "(nat \<Rightarrow> sid \<Rightarrow> api_result) \<Rightarrow> env" where
  "example_env r =
     \<lparr>JSON_parse = (\<lambda>s. if s = ''{}'' then Some (JObj []) else None),
      JSON_stringify = example_stringify,
      remote = r,
      Date_now = (\<lambda>k. 1000 + 500 * int k)\<rparr>"

text \<open>
  Remote services for the examples: one under which no session has credentials, and one
  under which exactly session \<open>s\<close> has them (with an empty summary).
\<close>

definition remote_none :: "nat \<Rightarrow> sid \<Rightarrow> api_result" where
  "remote_none k s = Returns no_credentials"

definition remote_only :: "sid \<Rightarrow> nat \<Rightarrow> sid \<Rightarrow> api_result" where
  "remote_only s k s' = (if s' = s then Returns (with_credentials (JObj [])) else Returns no_credentials)"



text \<open>
  More remote services for the examples. \<open>remote_down\<close>: every check throws.
  \<open>remote_down_after_first\<close>: the first check answers that there are no
  credentials and every later one throws. \<open>remote_flapping\<close>: the first literal
  identifier has credentials at the check numbered 2 only, the second from the check
  numbered 5 on, and nothing else has any.
\<close>

definition remote_down :: "nat \<Rightarrow> sid \<Rightarrow> api_result" where
  "remote_down k s = Throws"

definition remote_down_after_first :: "nat \<Rightarrow> sid \<Rightarrow> api_result" where
  "remote_down_after_first k s = (if k = 0 then Returns no_credentials else Throws)"

definition remote_flapping :: "nat \<Rightarrow> sid \<Rightarrow> api_result" where
  "remote_flapping k s =
     (if (s = ''8428094f-8aeb-4bad-aa6d-6a838a3c9192'' \<and> k = 2)
         \<or> (s = ''fc208a99-36eb-4b0f-9e9a-b49cd882b943'' \<and> 5 \<le> k)
      then Returns (with_credentials (JObj []))
      else Returns no_credentials)"


section \<open>Properties\<close>

subsection \<open>Clearing\<close>

text \<open>
  C10. Whatever the remote clear call does (a response of any content, or a throw),
  \<^verbatim>\<open>clearCredentials\<close> resolves, the stored summary is gone, the cached status is
  not-configured with a null error, the cache timestamp is the clock reading of the call
  and no promise is left in the slot; the mounted hook's state says the same. A second
  call in a row resolves too and leaves the same cached status and the same storage.
\<close>

theorem clearCredentials_total:
  "fst (clearCredentials r now now' w) = Resolved ()
   \<and> getItem ''odoo_credentials'' (snd (clearCredentials r now now' w)) = None
   \<and> globalCredentialStatus (snd (clearCredentials r now now' w))
       = Some \<lparr>isConfigured = False, error = None\<rparr>
   \<and> globalLastCheck (snd (clearCredentials r now now' w)) = now
   \<and> globalCredentialCheck (snd (clearCredentials r now now' w)) = None
   \<and> credentialsStatus (snd (clearCredentials r now now' w))
       = (if isMounted w
          then \<lparr>isConfigured = False, error = None, isLoading = False, isChecking = False,
                lastChecked = Some now'\<rparr>
          else credentialsStatus w)
   \<and> fst (clearCredentials r2 t2 t2' (snd (clearCredentials r now now' w))) = Resolved ()
   \<and> globalCredentialStatus (snd (clearCredentials r2 t2 t2' (snd (clearCredentials r now now' w))))
       = Some \<lparr>isConfigured = False, error = None\<rparr>
   \<and> localStorage (snd (clearCredentials r2 t2 t2' (snd (clearCredentials r now now' w))))
       = localStorage (snd (clearCredentials r now now' w))"
  by (cases r; cases r2)
     (simp_all add: clearCredentials_def removeItem_def getItem_def Let_def
        AList.delete_conv' AList.delete_idem)

theorem clearCredentials_total_witness:
  "fst (clearCredentials Throws 1000 1001 (initial_world ''cur'')) = Resolved ()
   \<and> getItem ''odoo_credentials'' (snd (clearCredentials Throws 1000 1001 (initial_world ''cur'')))
       = None
   \<and> globalCredentialStatus (snd (clearCredentials Throws 1000 1001 (initial_world ''cur'')))
       = Some \<lparr>isConfigured = False, error = None\<rparr>
   \<and> globalLastCheck (snd (clearCredentials Throws 1000 1001 (initial_world ''cur''))) = 1000
   \<and> globalCredentialStatus
        (snd (clearCredentials (Returns (JObj [(''success'', JBool True)])) 2000 2001
               (snd (clearCredentials Throws 1000 1001 (initial_world ''cur'')))))
       = Some \<lparr>isConfigured = False, error = None\<rparr>"
  using clearCredentials_total
    [of Throws 1000 1001 "initial_world ''cur''" "Returns (JObj [(''success'', JBool True)])"
        2000 2001]
  by simp

subsection \<open>Rotation\<close>




subsection \<open>The recovery probe\<close>

lemma check_ok_credentials:
  "check_ok d = Inr True \<Longrightarrow> \<exists>c. js_get d ''credentials'' = Inr c \<and> truthy c"
  by (auto simp add: check_ok_def split: sum.splits if_splits)






lemma try_sessions_spec:
  "\<exists>ps. requests (snd (try_sessions E cur cs w)) = requests w @ ps
      \<and> prefix ps (filter (\<lambda>s. s \<noteq> cur) cs)
      \<and> (\<forall>i<length ps. confirmed E (length (requests w) + i) (ps ! i)
              = (Suc i = length ps \<and> fst (try_sessions E cur cs w) \<noteq> NotFound))
      \<and> (case fst (try_sessions E cur cs w) of
            NotFound \<Rightarrow> ps = filter (\<lambda>s. s \<noteq> cur) cs
          | Found s c \<Rightarrow> ps \<noteq> [] \<and> s = last ps \<and> truthy c)"
proof (induction cs arbitrary: w)
  case Nil
  show ?case by simp
next
  case (Cons c cs)
  show ?case
  proof (cases "c = cur")
    case True
    then show ?thesis using Cons.IH [of w] by (auto split: find_result.splits)
  next
    case False
    show ?thesis
    proof (cases "confirmed E (length (requests w)) c")
      case True
      then obtain d cr where d: "remote E (length (requests w)) c = Returns d"
          "check_ok d = Inr True" "js_get d ''credentials'' = Inr cr" "truthy cr"
        using check_ok_credentials
        by (fastforce simp add: confirmed_def split: api_result.splits sum.splits)
      have "try_sessions E cur (c # cs) w = (Found c cr, send_check c w)"
        using False d by (simp add: getOdooCredentials_def)
      then show ?thesis using False True d(4)
        by (intro exI [of _ "[c]"]) (simp add: send_check_def)
    next
      case nc: False
      have eq: "try_sessions E cur (c # cs) w = try_sessions E cur cs (send_check c w)"
        using False nc
        by (auto simp add: getOdooCredentials_def confirmed_def
              split: api_result.splits sum.splits bool.splits)
      from Cons.IH [of "send_check c w"] obtain ps where ps:
        "requests (snd (try_sessions E cur cs (send_check c w))) = requests (send_check c w) @ ps"
        "prefix ps (filter (\<lambda>s. s \<noteq> cur) cs)"
        "\<forall>i<length ps. confirmed E (length (requests (send_check c w)) + i) (ps ! i)
              = (Suc i = length ps \<and> fst (try_sessions E cur cs (send_check c w)) \<noteq> NotFound)"
        "case fst (try_sessions E cur cs (send_check c w)) of
            NotFound \<Rightarrow> ps = filter (\<lambda>s. s \<noteq> cur) cs
          | Found s c \<Rightarrow> ps \<noteq> [] \<and> s = last ps \<and> truthy c"
        by blast
      have all: "\<forall>i<length (c # ps). confirmed E (length (requests w) + i) ((c # ps) ! i)
              = (Suc i = length (c # ps) \<and> fst (try_sessions E cur (c # cs) w) \<noteq> NotFound)"
      proof (intro allI impI)
        fix i
        assume i: "i < length (c # ps)"
        show "confirmed E (length (requests w) + i) ((c # ps) ! i)
              = (Suc i = length (c # ps) \<and> fst (try_sessions E cur (c # cs) w) \<noteq> NotFound)"
        proof (cases i)
          case 0
          then show ?thesis using nc ps(4) eq by (auto split: find_result.splits)
        next
          case (Suc j)
          then show ?thesis using ps(3) i eq by (simp add: send_check_def)
        qed
      qed
      show ?thesis
        apply (rule exI [of _ "c # ps"])
        using ps(1,2,4) all False eq
        by (auto simp add: send_check_def split: find_result.splits)
    qed
  qed
qed

lemma findAvailableSession_spec:
  "\<exists>ps. requests (snd (findAvailableSession E cur w)) = requests w @ cur # ps
      \<and> prefix ps (filter (\<lambda>s. s \<noteq> cur) commonSessions)
      \<and> length (cur # ps) \<le> 3
      \<and> (\<forall>i<length (cur # ps). confirmed E (length (requests w) + i) ((cur # ps) ! i)
              = (Suc i = length (cur # ps) \<and> fst (findAvailableSession E cur w) \<noteq> NotFound))
      \<and> (case fst (findAvailableSession E cur w) of
            NotFound \<Rightarrow> ps = filter (\<lambda>s. s \<noteq> cur) commonSessions
                          \<or> (ps = [] \<and> check_threw E (length (requests w)) cur)
          | Found s c \<Rightarrow> s = last (cur # ps) \<and> truthy c)"
proof (cases "confirmed E (length (requests w)) cur")
  case True
  then obtain d cr where d: "remote E (length (requests w)) cur = Returns d"
      "check_ok d = Inr True" "js_get d ''credentials'' = Inr cr" "truthy cr"
    using check_ok_credentials
    by (fastforce simp add: confirmed_def split: api_result.splits sum.splits)
  have "findAvailableSession E cur w = (Found cur cr, send_check cur w)"
    using d by (simp add: findAvailableSession_def getOdooCredentials_def)
  then show ?thesis using True d(4)
    by (intro exI [of _ "[]"]) (simp add: send_check_def)
next
  case nc: False
  show ?thesis
  proof (cases "check_threw E (length (requests w)) cur")
    case True
    then have "findAvailableSession E cur w = (NotFound, send_check cur w)"
      by (auto simp add: findAvailableSession_def getOdooCredentials_def check_threw_def
            split: api_result.splits sum.splits)
    then show ?thesis using True nc
      by (intro exI [of _ "[]"]) (simp add: send_check_def)
  next
    case False
    have eq: "findAvailableSession E cur w
        = try_sessions E cur commonSessions (send_check cur w)"
      using False nc
      by (auto simp add: findAvailableSession_def getOdooCredentials_def check_threw_def
            confirmed_def split: api_result.splits sum.splits bool.splits)
    from try_sessions_spec [of E cur commonSessions "send_check cur w"] obtain ps where ps:
      "requests (snd (try_sessions E cur commonSessions (send_check cur w)))
         = requests (send_check cur w) @ ps"
      "prefix ps (filter (\<lambda>s. s \<noteq> cur) commonSessions)"
      "\<forall>i<length ps. confirmed E (length (requests (send_check cur w)) + i) (ps ! i)
            = (Suc i = length ps
               \<and> fst (try_sessions E cur commonSessions (send_check cur w)) \<noteq> NotFound)"
      "case fst (try_sessions E cur commonSessions (send_check cur w)) of
          NotFound \<Rightarrow> ps = filter (\<lambda>s. s \<noteq> cur) commonSessions
        | Found s c \<Rightarrow> ps \<noteq> [] \<and> s = last ps \<and> truthy c"
      by blast
    have len: "length ps \<le> 2"
      using prefix_length_le [OF ps(2)] length_filter_le [of "\<lambda>s. s \<noteq> cur" commonSessions]
      by (simp add: commonSessions_def)
    have all: "\<forall>i<length (cur # ps). confirmed E (length (requests w) + i) ((cur # ps) ! i)
            = (Suc i = length (cur # ps) \<and> fst (findAvailableSession E cur w) \<noteq> NotFound)"
    proof (intro allI impI)
      fix i
      assume i: "i < length (cur # ps)"
      show "confirmed E (length (requests w) + i) ((cur # ps) ! i)
            = (Suc i = length (cur # ps) \<and> fst (findAvailableSession E cur w) \<noteq> NotFound)"
      proof (cases i)
        case 0
        then show ?thesis using nc ps(4) eq by (auto split: find_result.splits)
      next
        case (Suc j)
        then show ?thesis using ps(3) i eq by (simp add: send_check_def)
      qed
    qed
    show ?thesis
      apply (rule exI [of _ ps])
      using ps(1,2,4) all len eq
      by (auto simp add: send_check_def split: find_result.splits)
  qed
qed

text \<open>
  C5, as the code has it. A recovery cycle checks the current identifier first and then
  the literal identifiers of \<^verbatim>\<open>commonSessions\<close> in their order, leaving out one equal
  to the current identifier: whatever the store holds, the checks sent are the current
  identifier followed by a prefix of that list, three at most. A check that confirms
  credentials is the last one sent, and exactly then its identifier is returned with
  truthy credentials. When nothing is found, either every candidate was checked or the
  check of the current identifier threw.
\<close>

theorem findAvailableSession_probes:
  "\<exists>ps. requests (snd (findAvailableSession E cur w)) = requests w @ cur # ps
      \<and> prefix ps (filter (\<lambda>s. s \<noteq> cur) commonSessions)
      \<and> length (cur # ps) \<le> 3
      \<and> (\<forall>i<length (cur # ps). confirmed E (length (requests w) + i) ((cur # ps) ! i)
              = (Suc i = length (cur # ps) \<and> fst (findAvailableSession E cur w) \<noteq> NotFound))
      \<and> (case fst (findAvailableSession E cur w) of
            NotFound \<Rightarrow> ps = filter (\<lambda>s. s \<noteq> cur) commonSessions
                          \<or> (ps = [] \<and> check_threw E (length (requests w)) cur)
          | Found s c \<Rightarrow> s = last (cur # ps) \<and> truthy c)"
  by (rule findAvailableSession_spec)

lemmas example_defs =
  findAvailableSession_def getOdooCredentials_def send_check_def example_env_def
  example_stringify_def   initial_world_def no_credentials_def with_credentials_def check_ok_def commonSessions_def
  remote_only_def remote_none_def remote_down_def remote_down_after_first_def
  remote_flapping_def confirmed_def check_threw_def

lemmas start_defs =
  checkCredentials_start_def start_fetch_def fetch_begin_def session_guard_def getItem_def
  refreshCredentials_start_def cacheExpiry_def in_flight_def requiredFields_def Let_def


theorem findAvailableSession_probes_witness:
  "fst (findAvailableSession (example_env (remote_only ''fc208a99-36eb-4b0f-9e9a-b49cd882b943'')) ''cur''
         (initial_world ''cur'')) = Found ''fc208a99-36eb-4b0f-9e9a-b49cd882b943'' (JObj [])
   \<and> requests (snd (findAvailableSession (example_env (remote_only ''fc208a99-36eb-4b0f-9e9a-b49cd882b943''))
         ''cur'' (initial_world ''cur'')))
       = [''cur'', ''8428094f-8aeb-4bad-aa6d-6a838a3c9192'', ''fc208a99-36eb-4b0f-9e9a-b49cd882b943'']
   \<and> \<not> confirmed (example_env (remote_only ''fc208a99-36eb-4b0f-9e9a-b49cd882b943'')) 1
         ''8428094f-8aeb-4bad-aa6d-6a838a3c9192''
   \<and> confirmed (example_env (remote_only ''fc208a99-36eb-4b0f-9e9a-b49cd882b943'')) 2
         ''fc208a99-36eb-4b0f-9e9a-b49cd882b943''"
  using findAvailableSession_probes
    [of "example_env (remote_only ''fc208a99-36eb-4b0f-9e9a-b49cd882b943'')" "''cur''"
        "initial_world ''cur''"]
  by (simp add: example_defs)

text \<open>
  The claim as written has the candidates come from a scan of the store and never from
  literal constants. Here the store holds a record of an earlier session \<^verbatim>\<open>abc\<close>,
  which the scan of the keys does list, and the service has credentials for \<^verbatim>\<open>abc\<close>
  only: the probe checks the two literal identifiers, never \<^verbatim>\<open>abc\<close>, and finds
  nothing.
\<close>

theorem probes_ignore_store:
  "sessionHints ((initial_world ''cur'')\<lparr>localStorage :=
       [(''odoo_session_id'', ''cur''), (''odoo_session_previous'', ''abc'')]\<rparr>)
     = [''odoo_session_id'', ''odoo_session_previous'']
   \<and> fst (findAvailableSession (example_env (remote_only ''abc'')) ''cur''
        ((initial_world ''cur'')\<lparr>localStorage :=
           [(''odoo_session_id'', ''cur''), (''odoo_session_previous'', ''abc'')]\<rparr>)) = NotFound
   \<and> requests (snd (findAvailableSession (example_env (remote_only ''abc'')) ''cur''
        ((initial_world ''cur'')\<lparr>localStorage :=
           [(''odoo_session_id'', ''cur''), (''odoo_session_previous'', ''abc'')]\<rparr>)))
       = [''cur'', ''8428094f-8aeb-4bad-aa6d-6a838a3c9192'', ''fc208a99-36eb-4b0f-9e9a-b49cd882b943'']"
  by (simp add: example_defs sessionHints_def sublist_code)




subsection \<open>The stored summary\<close>







lemma cred_store_status [simp]: "getItem k (store_status c e now w) = getItem k w"
  by (simp add: store_status_def getItem_def Let_def)










lemma cred_finally [simp]: "getItem k (task_finally t w) = getItem k w"
  by (simp add: task_finally_def getItem_def)

lemma cred_catch [simp]: "getItem k (task_catch T w) = getItem k w"
  by (simp add: task_catch_def)






subsection \<open>Starting a check\<close>

lemma start_fetch_result:
  "fst (start_fetch E s now w) = Started (length (tasks w))
   \<and> requests (snd (start_fetch E s now w)) = requests w @ [s]
   \<and> globalCredentialCheck (snd (start_fetch E s now w)) = Some (length (tasks w))
   \<and> globalSessionId (snd (start_fetch E s now w)) = globalSessionId w
   \<and> (\<exists>ph. tasks (snd (start_fetch E s now w)) = tasks w @
          [\<lparr>t_sessionId = s, t_now = now, t_phase = ph, t_req = length (requests w), t_settled = False\<rparr>])"
proof -
  let ?w1 = "if isMounted w
                then w\<lparr>credentialsStatus :=
                        (credentialsStatus w)\<lparr>isChecking := True, isLoading := False,
                                              error := None\<rparr>\<rparr>
                else w"
  have fb: "tasks (snd (fetch_begin E ?w1)) = tasks w \<and> requests (snd (fetch_begin E ?w1)) = requests w
      \<and> globalSessionId (snd (fetch_begin E ?w1)) = globalSessionId w"
    by (simp add: fetch_begin_def removeItem_def split: option.splits sum.splits bool.splits)
  show ?thesis using fb
    by (cases "fetch_begin E ?w1") (simp add: start_fetch_def Let_def send_check_def)
qed




lemma attach_all:
  "globalCredentialCheck w = Some p \<Longrightarrow> globalSessionId w = Some s \<Longrightarrow>
   issue_checks E s cs w = (replicate (length cs) (Attached p), w)"
proof (induction cs)
  case Nil
  show ?case by simp
next
  case (Cons c cs)
  obtain skip now where c: "c = (skip, now)" by (cases c)
  have g: "session_guard s w = w" using Cons.prems by (simp add: session_guard_def)
  have "checkCredentials_start E s skip now w = (Attached p, w)"
    using Cons.prems g by (simp add: checkCredentials_start_def)
  then show ?case using Cons c by simp
qed

lemma in_flight_append:
  "in_flight w = [] \<Longrightarrow> tasks w' = tasks w @ [T] \<Longrightarrow> \<not> t_settled T \<Longrightarrow>
   in_flight w' = [length (tasks w)]"
proof -
  assume a: "in_flight w = []" and b: "tasks w' = tasks w @ [T]" and c: "\<not> t_settled T"
  have "filter (\<lambda>t. \<not> t_settled ((tasks w @ [T]) ! t)) [0..<length (tasks w)]
      = filter (\<lambda>t. \<not> t_settled (tasks w ! t)) [0..<length (tasks w)]"
    by (rule filter_cong) (simp_all add: nth_append)
  then show ?thesis using a b c by (simp add: in_flight_def)
qed

text \<open>
  C1, as the code has it. When no check is in flight and the first of several calls of
  \<^verbatim>\<open>checkCredentials\<close> made under one session before any response arrives is not
  served from the cache, that call starts the one fetch and sends the one remote check;
  every later call gets the same promise, and one closure is in flight afterwards.
  (\<^verbatim>\<open>refreshCredentials\<close> and a call under another session are not such calls:
  they empty the slot first.)
\<close>

theorem single_flight_checks:
  assumes "globalCredentialCheck w = None" and "in_flight w = []"
    and "skipCache \<or> globalCredentialStatus w = None \<or> globalLastCheck w = 0
         \<or> 5 * 60 * 1000 \<le> now - globalLastCheck w"
  shows "fst (issue_checks E s ((skipCache, now) # cs) w)
           = Started (length (tasks w)) # replicate (length cs) (Attached (length (tasks w)))
       \<and> requests (snd (issue_checks E s ((skipCache, now) # cs) w)) = requests w @ [s]
       \<and> globalCredentialCheck (snd (issue_checks E s ((skipCache, now) # cs) w))
           = Some (length (tasks w))
       \<and> in_flight (snd (issue_checks E s ((skipCache, now) # cs) w)) = [length (tasks w)]"
proof -
  let ?g = "session_guard s w"
  have g: "globalCredentialCheck ?g = None" "tasks ?g = tasks w" "requests ?g = requests w"
    "globalSessionId ?g = Some s"
    using assms(1) by (simp_all add: session_guard_def Let_def split: option.splits)
  have miss: "skipCache \<or> globalCredentialStatus ?g = None \<or> globalLastCheck ?g = 0
         \<or> 5 * 60 * 1000 \<le> now - globalLastCheck ?g"
    using assms(3) by (auto simp add: session_guard_def Let_def split: option.splits)
  have st: "checkCredentials_start E s skipCache now w = start_fetch E s now ?g"
    using g(1) miss by (auto simp add: checkCredentials_start_def cacheExpiry_def Let_def split: option.splits)
  obtain w1 where w1: "start_fetch E s now ?g = (Started (length (tasks w)), w1)"
    using start_fetch_result [of E s now ?g] g(2) by (cases "start_fetch E s now ?g") simp
  obtain ph where p: "requests w1 = requests w @ [s]" "globalCredentialCheck w1 = Some (length (tasks w))"
    "globalSessionId w1 = Some s"
    "tasks w1 = tasks w @ [\<lparr>t_sessionId = s, t_now = now, t_phase = ph, t_req = length (requests w), t_settled = False\<rparr>]"
    using start_fetch_result [of E s now ?g] g w1 by auto
  have fl: "in_flight w1 = [length (tasks w)]"
    using in_flight_append [OF assms(2) p(4)] by simp
  have rest: "issue_checks E s cs w1 = (replicate (length cs) (Attached (length (tasks w))), w1)"
    using attach_all [OF p(2) p(3)] .
  show ?thesis using st w1 rest p fl by simp
qed

theorem single_flight_checks_witness:
  "fst (issue_checks (example_env remote_none) ''cur'' [(False, 1000), (False, 1001), (True, 1002)]
          (initial_world ''cur'')) = [Started 0, Attached 0, Attached 0]
   \<and> requests (snd (issue_checks (example_env remote_none) ''cur''
          [(False, 1000), (False, 1001), (True, 1002)] (initial_world ''cur''))) = [''cur'']
   \<and> in_flight (snd (issue_checks (example_env remote_none) ''cur''
          [(False, 1000), (False, 1001), (True, 1002)] (initial_world ''cur''))) = [0]"
proof -
  have a: "globalCredentialCheck (initial_world ''cur'') = None"
    and b: "in_flight (initial_world ''cur'') = []"
    and c: "False \<or> globalCredentialStatus (initial_world ''cur'') = None
            \<or> globalLastCheck (initial_world ''cur'') = 0
            \<or> 5 * 60 * 1000 \<le> 1000 - globalLastCheck (initial_world ''cur'')"
    and d: "tasks (initial_world ''cur'') = []" "requests (initial_world ''cur'') = []"
    by (simp_all add: initial_world_def in_flight_def)
  show ?thesis
    using single_flight_checks [OF a b c, of "example_env remote_none" "''cur''"
        "[(False, 1001), (True, 1002)]"] d
    by simp
qed

text \<open>
  The claim as written lets no status request start a second round trip while a check
  is in flight. \<^verbatim>\<open>refreshCredentials\<close> called while the first check waits for its
  response sends a second check, and two closures are in flight.
\<close>

theorem refresh_starts_second_check:
  "fst (refreshCredentials_start (example_env remote_none) ''cur'' 1001
     (snd (checkCredentials_start (example_env remote_none) ''cur'' False 1000
        (initial_world ''cur'')))) = Started 1
   \<and> requests (snd (refreshCredentials_start (example_env remote_none) ''cur'' 1001
     (snd (checkCredentials_start (example_env remote_none) ''cur'' False 1000
        (initial_world ''cur''))))) = [''cur'', ''cur'']
   \<and> in_flight (snd (refreshCredentials_start (example_env remote_none) ''cur'' 1001
     (snd (checkCredentials_start (example_env remote_none) ''cur'' False 1000
        (initial_world ''cur''))))) = [0, 1]"
  by (simp add: start_defs send_check_def initial_world_def example_env_def)

subsection \<open>Finishing a check\<close>

lemma store_status_fields [simp]:
  "globalCredentialStatus (store_status c e now w) = Some \<lparr>isConfigured = c, error = e\<rparr>"
  "globalLastCheck (store_status c e now w) = now"
  "globalCredentialCheck (store_status c e now w) = globalCredentialCheck w"
  "tasks (store_status c e now w) = tasks w"
  "requests (store_status c e now w) = requests w"
  by (simp_all add: store_status_def Let_def)

lemma task_finally_fields [simp]:
  "globalCredentialStatus (task_finally t w) = globalCredentialStatus w"
  "globalLastCheck (task_finally t w) = globalLastCheck w"
  "globalCredentialCheck (task_finally t w) = None"
  "requests (task_finally t w) = requests w"
  by (simp_all add: task_finally_def)






subsection \<open>A whole call\<close>

lemma session_guard_fields [simp]:
  "tasks (session_guard s w) = tasks w"
  "requests (session_guard s w) = requests w"
  "globalSessionId (session_guard s w) = Some s"
  "localStorage (session_guard s w) = localStorage w"
  "globalCredentialCheck w = None \<Longrightarrow> globalCredentialCheck (session_guard s w) = None"
  by (simp_all add: session_guard_def Let_def split: option.splits)








lemma confirmed_read: "confirmed E k s = (read_check (remote E k s) = Inr True)"
  by (auto simp add: confirmed_def read_check_def split: api_result.splits sum.splits)




















end
